theory Spec2Isabelle
  imports Complex_Main
begin

section \<open>JavaScript numbers\<close>

text \<open>
  The fields of \<open>CircleSimulation\<close> are JavaScript numbers. They are modelled as real
  numbers extended by the three special values of IEEE 754 arithmetic, so that the
  divisions of \<open>update\<close> keep the meaning they have in the program: \<open>0 / 0\<close> is
  \<open>NaN\<close>, \<open>1 / 0\<close> is \<open>Infinity\<close>, \<open>0 * Infinity\<close> is \<open>NaN\<close>, and every comparison
  with \<open>NaN\<close> is false. Rounding, overflow and the sign of zero are idealised away:
  finite values compute as exact reals.

  The properties below are stated so that they do not lean on this idealisation. They
  say which operations the program applies to which values, or compare values, or bound
  a computed value with a tolerance that covers the rounding of the doubles. A fact that
  holds in exact arithmetic only is marked as such.
\<close>

datatype number = Fin real | PosInf | NegInf | NaN

fun is_finite :: "number \<Rightarrow> bool" where
  "is_finite (Fin _) = True"
| "is_finite _ = False"

fun num_add :: "number \<Rightarrow> number \<Rightarrow> number" where
  "num_add (Fin a) (Fin b) = Fin (a + b)"
| "num_add NaN _ = NaN"
| "num_add _ NaN = NaN"
| "num_add PosInf NegInf = NaN"
| "num_add NegInf PosInf = NaN"
| "num_add PosInf _ = PosInf"
| "num_add _ PosInf = PosInf"
| "num_add NegInf _ = NegInf"
| "num_add _ NegInf = NegInf"

fun num_neg :: "number \<Rightarrow> number" where
  "num_neg (Fin a) = Fin (- a)"
| "num_neg PosInf = NegInf"
| "num_neg NegInf = PosInf"
| "num_neg NaN = NaN"

text \<open>The infinity with the sign of a real number; no sign (a zero) gives \<open>NaN\<close>.\<close>

definition signed_inf :: "real \<Rightarrow> number" where
  "signed_inf a = (if a = 0 then NaN else if 0 < a then PosInf else NegInf)"

fun num_mul :: "number \<Rightarrow> number \<Rightarrow> number" where
  "num_mul (Fin a) (Fin b) = Fin (a * b)"
| "num_mul NaN _ = NaN"
| "num_mul _ NaN = NaN"
| "num_mul (Fin a) PosInf = signed_inf a"
| "num_mul (Fin a) NegInf = signed_inf (- a)"
| "num_mul PosInf (Fin b) = signed_inf b"
| "num_mul NegInf (Fin b) = signed_inf (- b)"
| "num_mul PosInf PosInf = PosInf"
| "num_mul NegInf NegInf = PosInf"
| "num_mul PosInf NegInf = NegInf"
| "num_mul NegInf PosInf = NegInf"

text \<open>
  Division. A finite divisor that is zero is taken as the positive zero, which is what
  \<open>Math.sqrt\<close> returns, the only zero divisor that \<open>update\<close> can meet.
\<close>

fun num_div :: "number \<Rightarrow> number \<Rightarrow> number" where
  "num_div (Fin a) (Fin b) = (if b = 0 then signed_inf a else Fin (a / b))"
| "num_div NaN _ = NaN"
| "num_div _ NaN = NaN"
| "num_div (Fin a) PosInf = Fin 0"
| "num_div (Fin a) NegInf = Fin 0"
| "num_div PosInf (Fin b) = (if 0 \<le> b then PosInf else NegInf)"
| "num_div NegInf (Fin b) = (if 0 \<le> b then NegInf else PosInf)"
| "num_div PosInf PosInf = NaN"
| "num_div PosInf NegInf = NaN"
| "num_div NegInf PosInf = NaN"
| "num_div NegInf NegInf = NaN"

fun num_le :: "number \<Rightarrow> number \<Rightarrow> bool" where
  "num_le (Fin a) (Fin b) = (a \<le> b)"
| "num_le NaN _ = False"
| "num_le _ NaN = False"
| "num_le NegInf (Fin b) = True"
| "num_le NegInf NegInf = True"
| "num_le NegInf PosInf = True"
| "num_le (Fin a) PosInf = True"
| "num_le PosInf PosInf = True"
| "num_le (Fin a) NegInf = False"
| "num_le PosInf (Fin b) = False"
| "num_le PosInf NegInf = False"

fun num_lt :: "number \<Rightarrow> number \<Rightarrow> bool" where
  "num_lt (Fin a) (Fin b) = (a < b)"
| "num_lt NaN _ = False"
| "num_lt _ NaN = False"
| "num_lt PosInf (Fin b) = False"
| "num_lt PosInf PosInf = False"
| "num_lt PosInf NegInf = False"
| "num_lt (Fin a) NegInf = False"
| "num_lt NegInf NegInf = False"
| "num_lt (Fin a) PosInf = True"
| "num_lt NegInf (Fin b) = True"
| "num_lt NegInf PosInf = True"

instantiation number :: "{plus, minus, uminus, times, inverse, ord}"
begin

definition plus_number :: "number \<Rightarrow> number \<Rightarrow> number" where
  "plus_number = num_add"

definition uminus_number :: "number \<Rightarrow> number" where
  "uminus_number = num_neg"

definition minus_number :: "number \<Rightarrow> number \<Rightarrow> number" where
  "minus_number x y = num_add x (num_neg y)"

definition times_number :: "number \<Rightarrow> number \<Rightarrow> number" where
  "times_number = num_mul"

definition divide_number :: "number \<Rightarrow> number \<Rightarrow> number" where
  "divide_number = num_div"

definition inverse_number :: "number \<Rightarrow> number" where
  "inverse_number x = num_div (Fin 1) x"

definition less_eq_number :: "number \<Rightarrow> number \<Rightarrow> bool" where
  "less_eq_number = num_le"

definition less_number :: "number \<Rightarrow> number \<Rightarrow> bool" where
  "less_number = num_lt"

instance ..

end

text \<open>The functions of the \<open>Math\<close> object that the simulation calls.\<close>

fun Math_sqrt :: "number \<Rightarrow> number" where
  "Math_sqrt (Fin a) = (if a < 0 then NaN else Fin (sqrt a))"
| "Math_sqrt PosInf = PosInf"
| "Math_sqrt _ = NaN"

fun Math_cos :: "number \<Rightarrow> number" where
  "Math_cos (Fin a) = Fin (cos a)"
| "Math_cos _ = NaN"

fun Math_sin :: "number \<Rightarrow> number" where
  "Math_sin (Fin a) = Fin (sin a)"
| "Math_sin _ = NaN"

fun Math_min :: "number \<Rightarrow> number \<Rightarrow> number" where
  "Math_min NaN _ = NaN"
| "Math_min _ NaN = NaN"
| "Math_min x y = (if num_le x y then x else y)"

text \<open>The angle of the point \<open>(x, y)\<close>, in \<open>(-\<pi>, \<pi>]\<close>, and \<open>0\<close> at the origin.\<close>

definition atan2 :: "real \<Rightarrow> real \<Rightarrow> real" where
  "atan2 y x =
     (if 0 < x then arctan (y / x)
      else if x < 0 then (if 0 \<le> y then arctan (y / x) + pi else arctan (y / x) - pi)
      else if 0 < y then pi / 2
      else if y < 0 then - (pi / 2)
      else 0)"

fun Math_atan2 :: "number \<Rightarrow> number \<Rightarrow> number" where
  "Math_atan2 (Fin y) (Fin x) = Fin (atan2 y x)"
| "Math_atan2 NaN _ = NaN"
| "Math_atan2 _ NaN = NaN"
| "Math_atan2 (Fin y) PosInf = Fin 0"
| "Math_atan2 (Fin y) NegInf = (if 0 \<le> y then Fin pi else Fin (- pi))"
| "Math_atan2 PosInf (Fin x) = Fin (pi / 2)"
| "Math_atan2 NegInf (Fin x) = Fin (- (pi / 2))"
| "Math_atan2 PosInf PosInf = Fin (pi / 4)"
| "Math_atan2 PosInf NegInf = Fin (3 * pi / 4)"
| "Math_atan2 NegInf PosInf = Fin (- (pi / 4))"
| "Math_atan2 NegInf NegInf = Fin (- (3 * pi / 4))"

section \<open>The simulation state\<close>

text \<open>
  The fields of the class \<open>CircleSimulation\<close>, under their own names. A \<open>Blob\<close> is
  represented by its size, a callback by an identifier, and the colour string
  \<open>hsl(hue, 100%, 50%)\<close> by its hue. The canvas, its 2D context, the text elements and
  the audio nodes are only read by \<open>draw\<close> and by the accessors: they hold no
  simulation state and are left out, and so is \<open>draw\<close>, which writes pixels only.

  Three parts of the browser are state too, and are kept in the same record:
  the \<open>MediaRecorder\<close> objects created so far (\<open>recorders\<close>; \<open>mediaRecorder\<close> refers to
  one of them by its index) and whether the browser records VP9, the animation frame
  requests that are scheduled (\<open>rafPending\<close>, and \<open>rafNext\<close> for the next handle), and the
  calls made to the two callbacks: \<open>collisionCalls\<close> counts the calls of \<open>onCollision\<close>,
  \<open>delivered\<close> lists the recordings handed to \<open>onRecordingComplete\<close>, each with the
  callback that received it.
\<close>

datatype RecordingState = inactive | recording | paused

record MediaRecorder =
  rstate :: RecordingState
  audioTracks :: nat

type_synonym vec = "number \<times> number"

record sim =
  mediaRecorder :: "nat option"
  chunks :: "nat list"
  animationId :: nat
  running :: bool
  startTime :: number
  elapsedTime :: number
  simulationColor :: number
  onRecordingComplete :: "nat option"
  onCollision :: bool
  isDragging :: bool
  WIDTH :: number
  HEIGHT :: number
  CIRCLE_RADIUS :: number
  GRAVITY :: number
  VELOCITY_INCREASE_FACTOR :: number
  VELOCITY_DECAY :: number
  BALL_GROWTH_RATE :: number
  MAX_BALL_RADIUS :: number
  previousPositions :: "vec list"
  ballRadius :: number
  ballCenter :: vec
  ballVelocity :: vec
  collisionPoints :: "vec list"
  recorders :: "MediaRecorder list"
  vp9Supported :: bool
  rafNext :: nat
  rafPending :: "nat list"
  collisionCalls :: nat
  delivered :: "(nat \<times> nat list) list"

datatype error = NoCanvasContext | NotSupportedError

definition INITIAL_BALL_RADIUS :: number where
  "INITIAL_BALL_RADIUS = Fin 5"

definition MOTION_BLUR_STEPS :: nat where
  "MOTION_BLUR_STEPS = 5"

section \<open>Construction, reset and the tuning setters\<close>

text \<open>\<open>generateRandomColor\<close>; \<open>rnd\<close> is the value that \<open>Math.random()\<close> returns.\<close>

definition generateRandomColor :: "real \<Rightarrow> number" where
  "generateRandomColor rnd = Fin rnd * Fin 360"

text \<open>\<open>reset\<close>; \<open>now\<close> is the value that \<open>performance.now()\<close> returns.\<close>

definition reset :: "real \<Rightarrow> real \<Rightarrow> sim \<Rightarrow> sim" where
  "reset now rnd s = s
     \<lparr> ballRadius := INITIAL_BALL_RADIUS,
       ballCenter := (WIDTH s / Fin 2, HEIGHT s / Fin 2.7),
       ballVelocity := (Fin 0.8, Fin 0.8),
       collisionPoints := [],
       previousPositions := [],
       startTime := Fin now,
       elapsedTime := Fin 0,
       simulationColor := generateRandomColor rnd \<rparr>"

text \<open>
  The constructor, for a canvas of the given width and height. \<open>has_ctx\<close> tells
  whether \<open>getContext('2d')\<close> returns a context, \<open>cb\<close> whether a collision callback
  is passed, \<open>vp9\<close> whether the browser records \<open>video/webm;codecs=vp9\<close>; \<open>rnd0\<close> and
  \<open>rnd1\<close> are the two random numbers drawn, \<open>now\<close> is the clock reading of \<open>reset\<close>.
  The ball's radius, centre and velocity have no initialiser: they are written as 0
  here and set by the call of \<open>reset\<close> that ends the constructor.
\<close>

definition new_CircleSimulation ::
  "nat \<Rightarrow> nat \<Rightarrow> bool \<Rightarrow> bool \<Rightarrow> bool \<Rightarrow> real \<Rightarrow> real \<Rightarrow> real \<Rightarrow> error + sim" where
  "new_CircleSimulation width height has_ctx cb vp9 rnd0 now rnd1 =
     (if \<not> has_ctx then Inl NoCanvasContext
      else
        let w = Fin (real width);
            h = Fin (real height);
            r = Math_min w h / Fin 2 - Fin 125
        in Inr (reset now rnd1
             \<lparr> mediaRecorder = None,
               chunks = [],
               animationId = 0,
               running = False,
               startTime = Fin 0,
               elapsedTime = Fin 0,
               simulationColor = generateRandomColor rnd0,
               onRecordingComplete = None,
               onCollision = cb,
               isDragging = False,
               WIDTH = w,
               HEIGHT = h,
               CIRCLE_RADIUS = r,
               GRAVITY = Fin 0.4,
               VELOCITY_INCREASE_FACTOR = Fin 1.02,
               VELOCITY_DECAY = Fin 0.9995,
               BALL_GROWTH_RATE = Fin 1.015,
               MAX_BALL_RADIUS = r - Fin 10,
               previousPositions = [],
               ballRadius = Fin 0,
               ballCenter = (Fin 0, Fin 0),
               ballVelocity = (Fin 0, Fin 0),
               collisionPoints = [],
               recorders = [],
               vp9Supported = vp9,
               rafNext = 1,
               rafPending = [],
               collisionCalls = 0,
               delivered = [] \<rparr>))"

definition setGravity :: "number \<Rightarrow> sim \<Rightarrow> sim" where
  "setGravity v s = s\<lparr>GRAVITY := v\<rparr>"

definition setVelocityIncrease :: "number \<Rightarrow> sim \<Rightarrow> sim" where
  "setVelocityIncrease v s = s\<lparr>VELOCITY_INCREASE_FACTOR := Fin 1 + v\<rparr>"

definition setVelocityDecay :: "number \<Rightarrow> sim \<Rightarrow> sim" where
  "setVelocityDecay v s = s\<lparr>VELOCITY_DECAY := v\<rparr>"

definition setBallGrowthRate :: "number \<Rightarrow> sim \<Rightarrow> sim" where
  "setBallGrowthRate v s = s\<lparr>BALL_GROWTH_RATE := Fin 1 + v\<rparr>"

section \<open>The physics step\<close>

text \<open>
  \<open>update\<close>, statement by statement. The test \<open>distance >= CIRCLE_RADIUS - ballRadius\<close>
  reads \<open>CIRCLE_RADIUS - ballRadius \<le> distance\<close> here; \<open>v ** 2\<close> is \<open>v * v\<close>. The
  collision callback, when there is one, is counted in \<open>collisionCalls\<close>.
\<close>

definition update :: "real \<Rightarrow> sim \<Rightarrow> sim" where
  "update now s =
     (let elapsed = (Fin now - startTime s) / Fin 1000;
          pushed = previousPositions s @ [ballCenter s];
          positions = (if MOTION_BLUR_STEPS < length pushed then tl pushed else pushed);
          vy_g = snd (ballVelocity s) + GRAVITY s;
          vx = fst (ballVelocity s) * VELOCITY_DECAY s;
          vy = vy_g * VELOCITY_DECAY s;
          cx = fst (ballCenter s) + vx;
          cy = snd (ballCenter s) + vy;
          circleCenter = (WIDTH s / Fin 2, HEIGHT s / Fin 2);
          dx = cx - fst circleCenter;
          dy = cy - snd circleCenter;
          distance = Math_sqrt (dx * dx + dy * dy);
          s1 = s\<lparr> elapsedTime := elapsed, previousPositions := positions,
                   ballVelocity := (vx, vy), ballCenter := (cx, cy) \<rparr>
      in if CIRCLE_RADIUS s - ballRadius s \<le> distance then
           (let nx = dx / distance;
                ny = dy / distance;
                dot = vx * nx + vy * ny;
                restitution = Fin 0.95;
                rx = (vx - Fin 2 * dot * nx) * restitution;
                ry = (vy - Fin 2 * dot * ny) * restitution;
                radius = (if ballRadius s < MAX_BALL_RADIUS s
                          then Math_min (ballRadius s * BALL_GROWTH_RATE s) (MAX_BALL_RADIUS s)
                          else ballRadius s);
                bx = rx * VELOCITY_INCREASE_FACTOR s;
                by' = ry * VELOCITY_INCREASE_FACTOR s;
                minVelocity = Fin 1;
                currentVelocity = Math_sqrt (bx * bx + by' * by');
                velocity = (if currentVelocity < minVelocity
                            then (let scale = minVelocity / currentVelocity
                                  in (bx * scale, by' * scale))
                            else (bx, by'));
                angle = Math_atan2 dy dx;
                collisionX = fst circleCenter + CIRCLE_RADIUS s * Math_cos angle;
                collisionY = snd circleCenter + CIRCLE_RADIUS s * Math_sin angle
            in s1\<lparr> ballVelocity := velocity,
                    ballRadius := radius,
                    collisionPoints := collisionPoints s @ [(collisionX, collisionY)],
                    ballCenter :=
                      (fst circleCenter + (CIRCLE_RADIUS s - radius) * Math_cos angle,
                       snd circleCenter + (CIRCLE_RADIUS s - radius) * Math_sin angle),
                    collisionCalls :=
                      (if onCollision s then Suc (collisionCalls s) else collisionCalls s) \<rparr>)
         else s1)"

section \<open>The animation driver and the pointer handlers\<close>

text \<open>
  \<open>requestAnimationFrame\<close> hands out the handle \<open>rafNext\<close> and schedules it;
  \<open>cancelAnimationFrame\<close> removes a handle from the scheduled ones.
\<close>

definition animate :: "real \<Rightarrow> sim \<Rightarrow> sim" where
  "animate now s =
     (if \<not> running s then s
      else
        let s1 = update now s
        in s1\<lparr> animationId := rafNext s1,
                rafPending := rafPending s1 @ [rafNext s1],
                rafNext := Suc (rafNext s1) \<rparr>)"

text \<open>\<open>start\<close> reads the clock once itself and once more in the tick it runs.\<close>

definition start :: "real \<Rightarrow> real \<Rightarrow> sim \<Rightarrow> sim" where
  "start now0 now1 s =
     (let s1 = (if \<not> running s
                then s\<lparr>startTime := Fin now0 - elapsedTime s * Fin 1000\<rparr>
                else s)
      in animate now1 (s1\<lparr>running := True\<rparr>))"

definition stop :: "sim \<Rightarrow> sim" where
  "stop s = s\<lparr> running := False,
              rafPending := removeAll (animationId s) (rafPending s) \<rparr>"

definition isRunning :: "sim \<Rightarrow> bool" where
  "isRunning s = running s"

text \<open>The browser runs a scheduled frame callback: one more turn of \<open>animate\<close>.\<close>

definition frame :: "nat \<Rightarrow> real \<Rightarrow> sim \<Rightarrow> sim" where
  "frame h now s =
     (if h \<in> set (rafPending s)
      then animate now (s\<lparr>rafPending := removeAll h (rafPending s)\<rparr>)
      else s)"

definition handleMouseDown :: "number \<Rightarrow> number \<Rightarrow> sim \<Rightarrow> sim" where
  "handleMouseDown x y s =
     (let dx = x - fst (ballCenter s);
          dy = y - snd (ballCenter s);
          distance = Math_sqrt (dx * dx + dy * dy)
      in if distance \<le> ballRadius s then stop (s\<lparr>isDragging := True\<rparr>) else s)"

definition handleMouseMove :: "number \<Rightarrow> number \<Rightarrow> sim \<Rightarrow> sim" where
  "handleMouseMove x y s =
     (if isDragging s
      then s\<lparr>ballCenter := (x, y), ballVelocity := (Fin 0, Fin 0)\<rparr>
      else s)"

definition handleMouseUp :: "real \<Rightarrow> real \<Rightarrow> sim \<Rightarrow> sim" where
  "handleMouseUp now0 now1 s =
     (if isDragging s then start now0 now1 (s\<lparr>isDragging := False\<rparr>) else s)"

section \<open>Recording\<close>

text \<open>
  \<open>setupRecording\<close> builds a new \<open>MediaRecorder\<close>, which the browser creates in the
  state \<open>inactive\<close>, and stores the reference to it in \<open>mediaRecorder\<close>. The
  constructor of \<open>MediaRecorder\<close> throws when the mime type is not supported.
  \<open>audioStream\<close> is the number of audio tracks of the stream passed, if one is.
\<close>

definition setupRecording :: "nat option \<Rightarrow> sim \<Rightarrow> error + sim" where
  "setupRecording audioStream s =
     (let tracks = (case audioStream of
                      None \<Rightarrow> 0
                    | Some n \<Rightarrow> (if 0 < n then n else 0))
      in if \<not> vp9Supported s then Inl NotSupportedError
         else Inr (s\<lparr> recorders := recorders s @ [\<lparr>rstate = inactive, audioTracks = tracks\<rparr>],
                      mediaRecorder := Some (length (recorders s)) \<rparr>))"

definition recorder_state :: "sim \<Rightarrow> nat \<Rightarrow> RecordingState option" where
  "recorder_state s r =
     (if r < length (recorders s) then Some (rstate (recorders s ! r)) else None)"

definition set_recorder_state :: "nat \<Rightarrow> RecordingState \<Rightarrow> sim \<Rightarrow> sim" where
  "set_recorder_state r st s =
     s\<lparr>recorders := (recorders s)[r := (recorders s ! r)\<lparr>rstate := st\<rparr>]\<rparr>"

definition startRecording :: "nat option \<Rightarrow> nat option \<Rightarrow> sim \<Rightarrow> error + sim" where
  "startRecording onComplete audioStream s =
     (case setupRecording audioStream s of
        Inl e \<Rightarrow> Inl e
      | Inr s1 \<Rightarrow>
          (case mediaRecorder s1 of
             None \<Rightarrow> Inr s1
           | Some r \<Rightarrow>
               (if recorder_state s1 r = Some inactive
                then Inr (set_recorder_state r recording
                            (s1\<lparr>chunks := [], onRecordingComplete := onComplete\<rparr>))
                else Inr s1)))"

definition stopRecording :: "sim \<Rightarrow> sim" where
  "stopRecording s =
     (case mediaRecorder s of
        None \<Rightarrow> s
      | Some r \<Rightarrow>
          (if recorder_state s r = Some recording
           then set_recorder_state r inactive s
           else s))"

text \<open>
  The two event handlers that \<open>setupRecording\<close> installs on every recorder. Both are
  closures over the simulation, so they work on its one \<open>chunks\<close> array whichever
  recorder fires the event.
\<close>

definition ondataavailable :: "nat \<Rightarrow> sim \<Rightarrow> sim" where
  "ondataavailable size_of_data s =
     (if 0 < size_of_data then s\<lparr>chunks := chunks s @ [size_of_data]\<rparr> else s)"

definition onstop :: "sim \<Rightarrow> sim" where
  "onstop s =
     (let finalBlob = chunks s;
          s1 = (case onRecordingComplete s of
                  None \<Rightarrow> s
                | Some cb \<Rightarrow> s\<lparr>delivered := delivered s @ [(cb, finalBlob)]\<rparr>)
      in s1\<lparr>chunks := []\<rparr>)"

section \<open>The steps of the tick, one by one\<close>

text \<open>
  The specification describes \<open>update\<close> as a sequence of steps. Each step is written
  here as a function of its own on the state, in the words of the specification, so that
  the intermediate states of a tick (after gravity, after decay, after the reflection,
  after the repositioning) can be named; \<open>update\<close> is then shown to be their composition.
\<close>

definition boundaryCenter :: "sim \<Rightarrow> vec" where
  "boundaryCenter s = (WIDTH s / Fin 2, HEIGHT s / Fin 2)"

definition offset :: "sim \<Rightarrow> vec" where
  "offset s = (fst (ballCenter s) - fst (boundaryCenter s),
               snd (ballCenter s) - snd (boundaryCenter s))"

definition norm2 :: "vec \<Rightarrow> number" where
  "norm2 v = Math_sqrt (fst v * fst v + snd v * snd v)"

definition dot :: "vec \<Rightarrow> vec \<Rightarrow> number" where
  "dot u v = fst u * fst v + snd u * snd v"

text \<open>The distance from the ball's centre to the centre of the boundary.\<close>

definition distance :: "sim \<Rightarrow> number" where
  "distance s = norm2 (offset s)"

definition speed :: "sim \<Rightarrow> number" where
  "speed s = norm2 (ballVelocity s)"

text \<open>The normal \<open>(center - boundaryCenter) / distance\<close>.\<close>

definition normal :: "sim \<Rightarrow> vec" where
  "normal s = (fst (offset s) / distance s, snd (offset s) / distance s)"

definition read_clock :: "real \<Rightarrow> sim \<Rightarrow> sim" where
  "read_clock now s = s\<lparr>elapsedTime := (Fin now - startTime s) / Fin 1000\<rparr>"

definition record_trail :: "sim \<Rightarrow> sim" where
  "record_trail s =
     (let appended = previousPositions s @ [ballCenter s]
      in s\<lparr>previousPositions :=
             (if 5 < length appended then tl appended else appended)\<rparr>)"

definition apply_gravity :: "sim \<Rightarrow> sim" where
  "apply_gravity s =
     s\<lparr>ballVelocity := (fst (ballVelocity s), snd (ballVelocity s) + GRAVITY s)\<rparr>"

definition apply_decay :: "sim \<Rightarrow> sim" where
  "apply_decay s =
     s\<lparr>ballVelocity := (fst (ballVelocity s) * VELOCITY_DECAY s,
                         snd (ballVelocity s) * VELOCITY_DECAY s)\<rparr>"

definition integrate :: "sim \<Rightarrow> sim" where
  "integrate s =
     s\<lparr>ballCenter := (fst (ballCenter s) + fst (ballVelocity s),
                       snd (ballCenter s) + snd (ballVelocity s))\<rparr>"

definition collision_test :: "sim \<Rightarrow> bool" where
  "collision_test s = (CIRCLE_RADIUS s - ballRadius s \<le> distance s)"

definition reflect :: "sim \<Rightarrow> sim" where
  "reflect s =
     (let v = ballVelocity s; n = normal s
      in s\<lparr>ballVelocity := ((fst v - Fin 2 * dot v n * fst n) * Fin 0.95,
                            (snd v - Fin 2 * dot v n * snd n) * Fin 0.95)\<rparr>)"

definition grow :: "sim \<Rightarrow> sim" where
  "grow s =
     (if ballRadius s < MAX_BALL_RADIUS s
      then s\<lparr>ballRadius := Math_min (ballRadius s * BALL_GROWTH_RATE s) (MAX_BALL_RADIUS s)\<rparr>
      else s)"

definition boost :: "sim \<Rightarrow> sim" where
  "boost s =
     s\<lparr>ballVelocity := (fst (ballVelocity s) * VELOCITY_INCREASE_FACTOR s,
                         snd (ballVelocity s) * VELOCITY_INCREASE_FACTOR s)\<rparr>"

definition floor_speed :: "sim \<Rightarrow> sim" where
  "floor_speed s =
     (if speed s < Fin 1
      then s\<lparr>ballVelocity := (fst (ballVelocity s) * (Fin 1 / speed s),
                              snd (ballVelocity s) * (Fin 1 / speed s))\<rparr>
      else s)"

definition collision_angle :: "sim \<Rightarrow> number" where
  "collision_angle s = Math_atan2 (snd (offset s)) (fst (offset s))"

definition mark :: "sim \<Rightarrow> sim" where
  "mark s =
     s\<lparr>collisionPoints := collisionPoints s @
         [(fst (boundaryCenter s) + CIRCLE_RADIUS s * Math_cos (collision_angle s),
           snd (boundaryCenter s) + CIRCLE_RADIUS s * Math_sin (collision_angle s))]\<rparr>"

definition reposition :: "sim \<Rightarrow> sim" where
  "reposition s =
     s\<lparr>ballCenter :=
         (fst (boundaryCenter s) + (CIRCLE_RADIUS s - ballRadius s) * Math_cos (collision_angle s),
          snd (boundaryCenter s) + (CIRCLE_RADIUS s - ballRadius s) * Math_sin (collision_angle s))\<rparr>"

definition raise_event :: "sim \<Rightarrow> sim" where
  "raise_event s = (if onCollision s then s\<lparr>collisionCalls := Suc (collisionCalls s)\<rparr> else s)"

text \<open>The state in which the collision test is made, and the response to a collision.\<close>

definition moved :: "real \<Rightarrow> sim \<Rightarrow> sim" where
  "moved now s = integrate (apply_decay (apply_gravity (record_trail (read_clock now s))))"

definition respond :: "sim \<Rightarrow> sim" where
  "respond s = raise_event (reposition (mark (floor_speed (boost (grow (reflect s))))))"

definition update_by_steps :: "real \<Rightarrow> sim \<Rightarrow> sim" where
  "update_by_steps now s =
     (if collision_test (moved now s) then respond (moved now s) else moved now s)"

section \<open>Notions used to state the properties\<close>

text \<open>\<open>Math.abs\<close>, for the statement about the decay step.\<close>

fun Math_abs :: "number \<Rightarrow> number" where
  "Math_abs (Fin a) = Fin \<bar>a\<bar>"
| "Math_abs PosInf = PosInf"
| "Math_abs NegInf = PosInf"
| "Math_abs NaN = NaN"

text \<open>A state all of whose numbers are finite.\<close>

definition finite_sim :: "sim \<Rightarrow> bool" where
  "finite_sim s \<longleftrightarrow>
     is_finite (WIDTH s) \<and> is_finite (HEIGHT s) \<and>
     is_finite (CIRCLE_RADIUS s) \<and> is_finite (MAX_BALL_RADIUS s) \<and>
     is_finite (GRAVITY s) \<and> is_finite (VELOCITY_INCREASE_FACTOR s) \<and>
     is_finite (VELOCITY_DECAY s) \<and> is_finite (BALL_GROWTH_RATE s) \<and>
     is_finite (ballRadius s) \<and>
     is_finite (fst (ballCenter s)) \<and> is_finite (snd (ballCenter s)) \<and>
     is_finite (fst (ballVelocity s)) \<and> is_finite (snd (ballVelocity s))"

text \<open>The test of \<open>handleMouseDown\<close>: the pointer is on the ball.\<close>

definition pointer_in_ball :: "number \<Rightarrow> number \<Rightarrow> sim \<Rightarrow> bool" where
  "pointer_in_ball x y s \<longleftrightarrow>
     norm2 (x - fst (ballCenter s), y - snd (ballCenter s)) \<le> ballRadius s"

text \<open>
  Several calls of \<open>reset\<close> in a row, each with its own clock reading and random number.
\<close>

fun resets :: "(real \<times> real) list \<Rightarrow> sim \<Rightarrow> sim" where
  "resets [] s = s"
| "resets ((now, rnd) # rest) s = resets rest (reset now rnd s)"

text \<open>
  The simulation as the application constructs it, on its canvas of 1080 by 1920
  pixels, and the simulation on a canvas of the default size of a canvas element,
  300 by 150 pixels.
\<close>

definition app_sim :: sim where
  "app_sim = projr (new_CircleSimulation 1080 1920 True True True 0 0 0)"

definition small_sim :: sim where
  "small_sim = projr (new_CircleSimulation 300 150 True True True 0 0 0)"

text \<open>
  A ball without gravity and decay that falls slowly onto the lowest point of the
  boundary of the application's canvas: its next tick is a collision.
\<close>

definition bounce_sim :: sim where
  "bounce_sim = app_sim
     \<lparr> GRAVITY := Fin 0, VELOCITY_DECAY := Fin 1,
       ballCenter := (Fin 540, Fin 1459.5), ballVelocity := (Fin 0, Fin 0.5) \<rparr>"

section \<open>Arithmetic\<close>

lemmas number_ops = plus_number_def minus_number_def times_number_def divide_number_def
  less_eq_number_def less_number_def uminus_number_def

text \<open>Facts about real numbers behind the geometry of a bounce.\<close>

lemma unit_normal:
  fixes dx dy :: real
  assumes "sqrt (dx * dx + dy * dy) \<noteq> 0"
  shows "dx / sqrt (dx * dx + dy * dy) * (dx / sqrt (dx * dx + dy * dy))
       + dy / sqrt (dx * dx + dy * dy) * (dy / sqrt (dx * dx + dy * dy)) = 1"
proof -
  define q where "q = dx * dx + dy * dy"
  have q0: "0 \<le> q" by (simp add: q_def)
  have qq: "sqrt q * sqrt q = q" using q0 by simp
  have "dx / sqrt q * (dx / sqrt q) + dy / sqrt q * (dy / sqrt q) = (dx * dx + dy * dy) / (sqrt q * sqrt q)"
    by (simp add: add_divide_distrib)
  also have "\<dots> = q / q" by (simp add: qq q_def)
  also have "\<dots> = 1" using assms by (simp add: q_def)
  finally show ?thesis by (simp add: q_def)
qed

lemma reflect_normal_component:
  fixes vx vy nx ny c :: real
  assumes "nx * nx + ny * ny = 1"
  shows "(vx - 2 * (vx * nx + vy * ny) * nx) * c * nx + (vy - 2 * (vx * nx + vy * ny) * ny) * c * ny
       = - c * (vx * nx + vy * ny)"
proof -
  have "(vx - 2 * (vx * nx + vy * ny) * nx) * c * nx + (vy - 2 * (vx * nx + vy * ny) * ny) * c * ny
      = c * ((vx * nx + vy * ny) - 2 * (vx * nx + vy * ny) * (nx * nx + ny * ny))"
    by (simp add: algebra_simps)
  also have "\<dots> = - c * (vx * nx + vy * ny)"
    unfolding assms by (simp add: algebra_simps)
  finally show ?thesis .
qed

lemma rescaled_speed:
  fixes a b :: real
  assumes "0 < sqrt (a * a + b * b)"
  shows "sqrt (a * (1 / sqrt (a * a + b * b)) * (a * (1 / sqrt (a * a + b * b)))
             + b * (1 / sqrt (a * a + b * b)) * (b * (1 / sqrt (a * a + b * b)))) = 1"
proof -
  have "a * (1 / sqrt (a * a + b * b)) * (a * (1 / sqrt (a * a + b * b)))
      + b * (1 / sqrt (a * a + b * b)) * (b * (1 / sqrt (a * a + b * b)))
      = a / sqrt (a * a + b * b) * (a / sqrt (a * a + b * b))
      + b / sqrt (a * a + b * b) * (b / sqrt (a * a + b * b))" by simp
  also have "\<dots> = 1"
  proof (rule unit_normal)
    show "sqrt (a * a + b * b) \<noteq> 0" using assms by linarith
  qed
  finally show ?thesis by simp
qed

lemma scaled_unit_length:
  fixes x t :: real
  shows "sqrt (x * cos t * (x * cos t) + x * sin t * (x * sin t)) = \<bar>x\<bar>"
proof -
  have "x * cos t * (x * cos t) + x * sin t * (x * sin t) = x * x * (cos t * cos t + sin t * sin t)"
    by (simp only: distrib_left ac_simps)
  also have "\<dots> = x * x" by (simp only: sin_cos_squared_add3 mult_1_right)
  finally have e: "x * cos t * (x * cos t) + x * sin t * (x * sin t) = x * x" .
  show ?thesis unfolding e by simp
qed

lemma decayed_speed:
  fixes a b d :: real
  shows "sqrt (a * d * (a * d) + b * d * (b * d)) = \<bar>d\<bar> * sqrt (a * a + b * b)"
proof -
  have "a * d * (a * d) + b * d * (b * d) = d * d * (a * a + b * b)"
    by (simp add: algebra_simps)
  then have "sqrt (a * d * (a * d) + b * d * (b * d)) = sqrt (d * d) * sqrt (a * a + b * b)"
    by (simp only: real_sqrt_mult)
  then show ?thesis by simp
qed

text \<open>Facts about the numbers of the program.\<close>

lemma is_finite_iff: "is_finite x \<longleftrightarrow> (\<exists>a. x = Fin a)"
  by (cases x) simp_all

lemma norm2_Fin [simp]: "norm2 (Fin a, Fin b) = Fin (sqrt (a * a + b * b))"
  by (simp add: norm2_def number_ops not_sum_squares_lt_zero)

lemma positive_gap:
  fixes r R d :: number
  assumes "r < R" "R - r \<le> d"
  shows "Fin 0 < d"
  using assms by (cases r; cases R; cases d) (simp_all add: number_ops)

lemma norm2_finite:
  assumes "norm2 (x, y) = Fin c"
  obtains a b where "x = Fin a" "y = Fin b" "c = sqrt (a * a + b * b)"
  using assms
  by (cases x; cases y) (auto simp add: norm2_def number_ops signed_inf_def split: if_splits)

lemma radius_capped:
  assumes "is_finite r" "is_finite g" "r \<le> M"
  shows "(if r < M then Math_min (r * g) M else r) \<le> M"
  using assms by (cases r; cases g; cases M) (simp_all add: number_ops)

section \<open>The tick is the composition of its steps\<close>

lemma boundaryCenter_upd [simp]:
  "boundaryCenter (s\<lparr>ballVelocity := v\<rparr>) = boundaryCenter s"
  "boundaryCenter (s\<lparr>ballRadius := r\<rparr>) = boundaryCenter s"
  "boundaryCenter (s\<lparr>collisionPoints := ps\<rparr>) = boundaryCenter s"
  "boundaryCenter (s\<lparr>ballCenter := c\<rparr>) = boundaryCenter s"
  by (simp_all add: boundaryCenter_def)

lemma offset_upd [simp]:
  "offset (s\<lparr>ballVelocity := v\<rparr>) = offset s"
  "offset (s\<lparr>ballRadius := r\<rparr>) = offset s"
  "offset (s\<lparr>collisionPoints := ps\<rparr>) = offset s"
  by (simp_all add: offset_def)

lemma collision_angle_upd [simp]:
  "collision_angle (s\<lparr>ballVelocity := v\<rparr>) = collision_angle s"
  "collision_angle (s\<lparr>ballRadius := r\<rparr>) = collision_angle s"
  "collision_angle (s\<lparr>collisionPoints := ps\<rparr>) = collision_angle s"
  by (simp_all add: collision_angle_def)

lemma speed_upd [simp]:
  "speed (s\<lparr>ballVelocity := v\<rparr>) = norm2 v"
  "speed (s\<lparr>ballRadius := r\<rparr>) = speed s"
  by (simp_all add: speed_def)

lemma reflect_grow: "grow (reflect m) = 
  m\<lparr> ballVelocity := ((fst (ballVelocity m) - Fin 2 * dot (ballVelocity m) (normal m) * fst (normal m)) * Fin 0.95,
                       (snd (ballVelocity m) - Fin 2 * dot (ballVelocity m) (normal m) * snd (normal m)) * Fin 0.95),
      ballRadius := (if ballRadius m < MAX_BALL_RADIUS m then Math_min (ballRadius m * BALL_GROWTH_RATE m) (MAX_BALL_RADIUS m) else ballRadius m)\<rparr>"
  by (simp add: reflect_def grow_def Let_def)

lemma floor_boost: "floor_speed (boost (s\<lparr>ballVelocity := v, ballRadius := r\<rparr>)) =
   s\<lparr> ballVelocity := (let b = (fst v * VELOCITY_INCREASE_FACTOR s, snd v * VELOCITY_INCREASE_FACTOR s)
                       in if norm2 b < Fin 1 then (fst b * (Fin 1 / norm2 b), snd b * (Fin 1 / norm2 b)) else b),
       ballRadius := r\<rparr>"
  by (simp add: boost_def floor_speed_def Let_def)

lemma mark_reposition_event: "raise_event (reposition (mark (s\<lparr>ballVelocity := v, ballRadius := r\<rparr>))) =
  s\<lparr> ballVelocity := v, ballRadius := r,
     collisionPoints := collisionPoints s @ [(fst (boundaryCenter s) + CIRCLE_RADIUS s * Math_cos (collision_angle s), snd (boundaryCenter s) + CIRCLE_RADIUS s * Math_sin (collision_angle s))],
     ballCenter := (fst (boundaryCenter s) + (CIRCLE_RADIUS s - r) * Math_cos (collision_angle s), snd (boundaryCenter s) + (CIRCLE_RADIUS s - r) * Math_sin (collision_angle s)),
     collisionCalls := (if onCollision s then Suc (collisionCalls s) else collisionCalls s)\<rparr>"
  by (simp add: mark_def reposition_def raise_event_def)


lemma respond_eq: "respond m =
   m\<lparr> ballVelocity :=
         (let v = ((fst (ballVelocity m) - Fin 2 * dot (ballVelocity m) (normal m) * fst (normal m)) * Fin 0.95,
                   (snd (ballVelocity m) - Fin 2 * dot (ballVelocity m) (normal m) * snd (normal m)) * Fin 0.95);
              b = (fst v * VELOCITY_INCREASE_FACTOR m, snd v * VELOCITY_INCREASE_FACTOR m)
          in if norm2 b < Fin 1 then (fst b * (Fin 1 / norm2 b), snd b * (Fin 1 / norm2 b)) else b),
       ballRadius := (if ballRadius m < MAX_BALL_RADIUS m then Math_min (ballRadius m * BALL_GROWTH_RATE m) (MAX_BALL_RADIUS m) else ballRadius m),
       collisionPoints := collisionPoints m @ [(fst (boundaryCenter m) + CIRCLE_RADIUS m * Math_cos (collision_angle m), snd (boundaryCenter m) + CIRCLE_RADIUS m * Math_sin (collision_angle m))],
       ballCenter := (fst (boundaryCenter m) + (CIRCLE_RADIUS m - (if ballRadius m < MAX_BALL_RADIUS m then Math_min (ballRadius m * BALL_GROWTH_RATE m) (MAX_BALL_RADIUS m) else ballRadius m)) * Math_cos (collision_angle m),
                      snd (boundaryCenter m) + (CIRCLE_RADIUS m - (if ballRadius m < MAX_BALL_RADIUS m then Math_min (ballRadius m * BALL_GROWTH_RATE m) (MAX_BALL_RADIUS m) else ballRadius m)) * Math_sin (collision_angle m)),
       collisionCalls := (if onCollision m then Suc (collisionCalls m) else collisionCalls m)\<rparr>"
proof -
  define v where "v = ((fst (ballVelocity m) - Fin 2 * dot (ballVelocity m) (normal m) * fst (normal m)) * Fin 0.95,
                   (snd (ballVelocity m) - Fin 2 * dot (ballVelocity m) (normal m) * snd (normal m)) * Fin 0.95)"
  define r where "r = (if ballRadius m < MAX_BALL_RADIUS m then Math_min (ballRadius m * BALL_GROWTH_RATE m) (MAX_BALL_RADIUS m) else ballRadius m)"
  define w where "w = (let b = (fst v * VELOCITY_INCREASE_FACTOR m, snd v * VELOCITY_INCREASE_FACTOR m)
                       in if norm2 b < Fin 1 then (fst b * (Fin 1 / norm2 b), snd b * (Fin 1 / norm2 b)) else b)"
  have 1: "grow (reflect m) = m\<lparr>ballVelocity := v, ballRadius := r\<rparr>"
    unfolding v_def r_def by (rule reflect_grow)
  have 2: "floor_speed (boost (grow (reflect m))) = m\<lparr>ballVelocity := w, ballRadius := r\<rparr>"
    unfolding 1 w_def by (rule floor_boost)
  have 3: "respond m = raise_event (reposition (mark (m\<lparr>ballVelocity := w, ballRadius := r\<rparr>)))"
    unfolding respond_def 2 ..
  show ?thesis
    unfolding 3 mark_reposition_event unfolding w_def v_def r_def Let_def ..
qed

lemma moved_eq: "moved now s = s\<lparr> elapsedTime := (Fin now - startTime s) / Fin 1000,
   previousPositions := (if 5 < length (previousPositions s @ [ballCenter s]) then tl (previousPositions s @ [ballCenter s]) else previousPositions s @ [ballCenter s]),
   ballVelocity := (fst (ballVelocity s) * VELOCITY_DECAY s, (snd (ballVelocity s) + GRAVITY s) * VELOCITY_DECAY s),
   ballCenter := (fst (ballCenter s) + fst (ballVelocity s) * VELOCITY_DECAY s, snd (ballCenter s) + (snd (ballVelocity s) + GRAVITY s) * VELOCITY_DECAY s) \<rparr>"
  by (simp add: moved_def read_clock_def record_trail_def apply_gravity_def apply_decay_def integrate_def Let_def)


lemma update_steps: "update now s = update_by_steps now s"
  unfolding update_by_steps_def respond_eq
  unfolding moved_eq
  by (simp add: update_def Let_def collision_test_def distance_def normal_def offset_def
        norm2_def dot_def boundaryCenter_def collision_angle_def MOTION_BLUR_STEPS_def
        split del: if_split cong: if_cong)

lemma update_collision: "collision_test (moved now s) \<Longrightarrow> update now s = respond (moved now s)"
  by (simp add: update_steps update_by_steps_def)

lemma update_no_collision: "\<not> collision_test (moved now s) \<Longrightarrow> update now s = moved now s"
  by (simp add: update_steps update_by_steps_def)

section \<open>What the tick leaves alone\<close>

lemma respond_driver [simp]:
  "running (respond m) = running m"
  "isDragging (respond m) = isDragging m"
  "rafNext (respond m) = rafNext m"
  "rafPending (respond m) = rafPending m"
  "animationId (respond m) = animationId m"
  by (simp_all add: respond_eq)

lemma moved_driver [simp]:
  "running (moved now s) = running s"
  "isDragging (moved now s) = isDragging s"
  "rafNext (moved now s) = rafNext s"
  "rafPending (moved now s) = rafPending s"
  "animationId (moved now s) = animationId s"
  by (simp_all add: moved_eq)

lemma update_driver [simp]:
  "running (update now s) = running s"
  "isDragging (update now s) = isDragging s"
  "rafNext (update now s) = rafNext s"
  "rafPending (update now s) = rafPending s"
  "animationId (update now s) = animationId s"
  by (simp_all add: update_steps update_by_steps_def)

lemma animate_running:
  "running s \<Longrightarrow> running (animate now s) \<and> isDragging (animate now s) = isDragging s \<and>
     animationId (animate now s) \<in> set (rafPending (animate now s))"
  by (simp add: animate_def Let_def)

lemma handleMouseDown_in_ball:
  "pointer_in_ball x y s \<Longrightarrow> handleMouseDown x y s = stop (s\<lparr>isDragging := True\<rparr>)"
  by (simp add: handleMouseDown_def pointer_in_ball_def norm2_def Let_def)

lemma moved_fields [simp]:
  "ballRadius (moved now s) = ballRadius s"
  "CIRCLE_RADIUS (moved now s) = CIRCLE_RADIUS s"
  "MAX_BALL_RADIUS (moved now s) = MAX_BALL_RADIUS s"
  "BALL_GROWTH_RATE (moved now s) = BALL_GROWTH_RATE s"
  "VELOCITY_INCREASE_FACTOR (moved now s) = VELOCITY_INCREASE_FACTOR s"
  "WIDTH (moved now s) = WIDTH s"
  "HEIGHT (moved now s) = HEIGHT s"
  "boundaryCenter (moved now s) = boundaryCenter s"
  by (simp_all add: moved_eq boundaryCenter_def)

lemma respond_velocity: "ballVelocity (respond m) = ballVelocity (floor_speed (boost (grow (reflect m))))"
  by (simp add: respond_def raise_event_def reposition_def mark_def)

lemma respond_radius:
  "ballRadius (respond m) =
     (if ballRadius m < MAX_BALL_RADIUS m
      then Math_min (ballRadius m * BALL_GROWTH_RATE m) (MAX_BALL_RADIUS m) else ballRadius m)"
  by (simp add: respond_eq)

lemma respond_center:
  "ballCenter (respond m) =
     (fst (boundaryCenter m) + (CIRCLE_RADIUS m - ballRadius (respond m)) * Math_cos (collision_angle m),
      snd (boundaryCenter m) + (CIRCLE_RADIUS m - ballRadius (respond m)) * Math_sin (collision_angle m))"
  by (simp add: respond_eq)

lemma respond_boundary [simp]:
  "boundaryCenter (respond m) = boundaryCenter m"
  "CIRCLE_RADIUS (respond m) = CIRCLE_RADIUS m"
  by (simp_all add: respond_eq boundaryCenter_def)

lemma finite_respond_radius:
  assumes "is_finite (ballRadius m)" "is_finite (BALL_GROWTH_RATE m)" "is_finite (MAX_BALL_RADIUS m)"
  shows "is_finite (ballRadius (respond m))"
  using assms unfolding respond_radius
  by (cases "ballRadius m"; cases "BALL_GROWTH_RATE m"; cases "MAX_BALL_RADIUS m")
     (simp_all add: number_ops)

lemma finite_moved:
  assumes "finite_sim s"
  obtains vx vy ox oy where
    "ballVelocity (moved now s) = (Fin vx, Fin vy)" "offset (moved now s) = (Fin ox, Fin oy)"
proof -
  from assms obtain w h g d cx cy vx vy where f:
    "WIDTH s = Fin w" "HEIGHT s = Fin h" "GRAVITY s = Fin g" "VELOCITY_DECAY s = Fin d"
    "ballCenter s = (Fin cx, Fin cy)" "ballVelocity s = (Fin vx, Fin vy)"
    unfolding finite_sim_def is_finite_iff by (metis prod.collapse)
  show ?thesis
    by (rule that [of "vx * d" "(vy + g) * d" "cx + vx * d - w / 2" "cy + (vy + g) * d - h / 2"])
       (simp_all add: moved_eq offset_def boundaryCenter_def f number_ops)
qed

section \<open>Concrete simulations\<close>

text \<open>
  The states used as examples, evaluated. The values are those of exact arithmetic; the
  doubles of the program agree with them up to rounding.
\<close>

lemma app_sim_eq: "app_sim =
  \<lparr> mediaRecorder = None, chunks = [], animationId = 0, running = False,
    startTime = Fin 0, elapsedTime = Fin 0, simulationColor = Fin 0,
    onRecordingComplete = None, onCollision = True, isDragging = False,
    WIDTH = Fin 1080, HEIGHT = Fin 1920, CIRCLE_RADIUS = Fin 415,
    GRAVITY = Fin 0.4, VELOCITY_INCREASE_FACTOR = Fin 1.02, VELOCITY_DECAY = Fin 0.9995,
    BALL_GROWTH_RATE = Fin 1.015, MAX_BALL_RADIUS = Fin 405, previousPositions = [],
    ballRadius = Fin 5, ballCenter = (Fin 540, Fin (1920 / 2.7)), ballVelocity = (Fin 0.8, Fin 0.8),
    collisionPoints = [], recorders = [], vp9Supported = True, rafNext = 1, rafPending = [],
    collisionCalls = 0, delivered = [] \<rparr>"
  by (simp add: app_sim_def new_CircleSimulation_def reset_def generateRandomColor_def
        INITIAL_BALL_RADIUS_def Let_def divide_number_def minus_number_def times_number_def)

lemma small_sim_eq: "small_sim =
  \<lparr> mediaRecorder = None, chunks = [], animationId = 0, running = False,
    startTime = Fin 0, elapsedTime = Fin 0, simulationColor = Fin 0,
    onRecordingComplete = None, onCollision = True, isDragging = False,
    WIDTH = Fin 300, HEIGHT = Fin 150, CIRCLE_RADIUS = Fin (- 50),
    GRAVITY = Fin 0.4, VELOCITY_INCREASE_FACTOR = Fin 1.02, VELOCITY_DECAY = Fin 0.9995,
    BALL_GROWTH_RATE = Fin 1.015, MAX_BALL_RADIUS = Fin (- 60), previousPositions = [],
    ballRadius = Fin 5, ballCenter = (Fin 150, Fin (150 / 2.7)), ballVelocity = (Fin 0.8, Fin 0.8),
    collisionPoints = [], recorders = [], vp9Supported = True, rafNext = 1, rafPending = [],
    collisionCalls = 0, delivered = [] \<rparr>"
  by (simp add: small_sim_def new_CircleSimulation_def reset_def generateRandomColor_def
        INITIAL_BALL_RADIUS_def Let_def number_ops)

lemma finite_app_sim: "finite_sim app_sim"
  by (simp add: finite_sim_def app_sim_eq)

lemma finite_small_sim: "finite_sim small_sim"
  by (simp add: finite_sim_def small_sim_eq)

lemma finite_bounce_sim: "finite_sim bounce_sim"
  by (simp add: finite_sim_def bounce_sim_def app_sim_eq)

lemma sqrt_250000: "sqrt 250000 = 500"
  by (rule real_sqrt_unique) simp_all

lemma moved_bounce_sim:
  "ballVelocity (moved 0 bounce_sim) = (Fin 0, Fin 0.5)"
  "offset (moved 0 bounce_sim) = (Fin 0, Fin 500)"
  "distance (moved 0 bounce_sim) = Fin 500"
  by (simp_all add: moved_eq distance_def offset_def boundaryCenter_def bounce_sim_def app_sim_eq number_ops sqrt_250000)

lemma collision_bounce_sim: "collision_test (moved 0 bounce_sim)"
  by (simp add: collision_test_def moved_bounce_sim) (simp add: bounce_sim_def app_sim_eq number_ops)

lemma collision_small_sim: "collision_test (moved 0 small_sim)"
proof -
  from finite_small_sim obtain vx vy ox oy where
    "ballVelocity (moved 0 small_sim) = (Fin vx, Fin vy)"
    "offset (moved 0 small_sim) = (Fin ox, Fin oy)"
    by (rule finite_moved)
  then have "distance (moved 0 small_sim) = Fin (sqrt (ox * ox + oy * oy))"
    by (simp add: distance_def)
  then show ?thesis
    by (simp add: collision_test_def small_sim_eq number_ops order_trans [of "- 55" 0])
qed

lemma no_collision_app_sim: "\<not> collision_test (moved 0 app_sim)"
proof -
  have "sqrt ((8 / 10 * (9995 / 10 ^ 4)) * (8 / 10 * (9995 / 10 ^ 4))
      + (1920 / (27 / 10) + (8 / 10 + 4 / 10) * (9995 / 10 ^ 4) - 960)
        * (1920 / (27 / 10) + (8 / 10 + 4 / 10) * (9995 / 10 ^ 4) - 960)) < (410 :: real)"
    by (rule real_less_lsqrt) (simp_all add: power2_eq_square)
  then show ?thesis
    by (simp add: collision_test_def distance_def offset_def boundaryCenter_def moved_eq
          app_sim_eq number_ops not_sum_squares_lt_zero)
qed

lemma no_collision_reversed: "\<not> collision_test (moved 0 (setVelocityDecay (Fin (- 1)) app_sim))"
proof -
  have "sqrt ((8 / 10) * (8 / 10)
      + (1920 / (27 / 10) - (8 / 10 + 4 / 10) - 960) * (1920 / (27 / 10) - (8 / 10 + 4 / 10) - 960))
      < (410 :: real)"
    by (rule real_less_lsqrt) (simp_all add: power2_eq_square)
  then show ?thesis
    by (simp add: collision_test_def distance_def offset_def boundaryCenter_def moved_eq
          setVelocityDecay_def app_sim_eq number_ops not_sum_squares_lt_zero)
qed

lemma boosted_bounce_sim:
  "ballVelocity (boost (grow (reflect (moved 0 bounce_sim)))) = (Fin 0, Fin (- 0.4845))"
  by (simp add: boost_def grow_def reflect_def Let_def normal_def dot_def moved_bounce_sim
        number_ops)
     (simp add: bounce_sim_def app_sim_eq number_ops)

lemma radius_after_bounce: "ballRadius (update 0 bounce_sim) = Fin 5.075"
  by (simp add: update_collision [OF collision_bounce_sim] respond_radius)
     (simp add: bounce_sim_def app_sim_eq number_ops)

lemma pointer_on_app_sim: "pointer_in_ball (Fin 540) (Fin (1920 / 2.7)) app_sim"
  by (simp add: pointer_in_ball_def norm2_def app_sim_eq number_ops)

section \<open>Recording\<close>

text \<open>
  C1. The specification asks that \<open>startRecording\<close> does nothing while a capture session
  is active. In the program, \<open>startRecording\<close> first calls \<open>setupRecording\<close>, which
  replaces \<open>mediaRecorder\<close> by a new recorder, and a new recorder is always inactive: the
  guard never fails. Evaluated on the application's simulation: a first session is
  started with callback 1 and has buffered one chunk of 100 bytes; a second call with
  callback 2 then leaves the first recorder recording, starts a second recorder and makes
  it the current one, empties the chunk buffer and replaces the callback.
\<close>

theorem startRecording_twice:
  "(case startRecording (Some 1) None app_sim of
      Inl e \<Rightarrow> False
    | Inr s1 \<Rightarrow>
        (let s2 = ondataavailable 100 s1
         in recorder_state s2 0 = Some recording \<and> mediaRecorder s2 = Some 0 \<and>
            chunks s2 = [100] \<and> onRecordingComplete s2 = Some 1 \<and>
            (case startRecording (Some 2) None s2 of
               Inl e \<Rightarrow> False
             | Inr s3 \<Rightarrow>
                 mediaRecorder s3 = Some 1 \<and> recorder_state s3 0 = Some recording \<and>
                 recorder_state s3 1 = Some recording \<and> chunks s3 = [] \<and>
                 onRecordingComplete s3 = Some 2)))"
  by (simp add: app_sim_eq startRecording_def setupRecording_def recorder_state_def
        set_recorder_state_def ondataavailable_def Let_def)

section \<open>Reset\<close>

text \<open>
  C8. \<open>reset\<close> is idempotent on the physical state. After one call of \<open>reset\<close>, any
  number of further calls (\<open>args\<close> lists their clock readings and random numbers) gives a
  state that differs from the state after the first call in the start time and the
  colour at most: the ball radius is the initial radius, the centre is
  \<open>(WIDTH / 2, HEIGHT / 2.7)\<close>, the velocity is \<open>(0.8, 0.8)\<close>, and the motion trail and
  the collision marks are empty.
\<close>

theorem reset_idempotent:
  "resets args (reset now rnd s) =
     (reset now rnd s)\<lparr> startTime := startTime (resets args (reset now rnd s)),
                        simulationColor := simulationColor (resets args (reset now rnd s)) \<rparr>
   \<and> ballRadius (resets args (reset now rnd s)) = INITIAL_BALL_RADIUS
   \<and> ballCenter (resets args (reset now rnd s)) = (WIDTH s / Fin 2, HEIGHT s / Fin 2.7)
   \<and> ballVelocity (resets args (reset now rnd s)) = (Fin 0.8, Fin 0.8)
   \<and> previousPositions (resets args (reset now rnd s)) = []
   \<and> collisionPoints (resets args (reset now rnd s)) = []"
proof (induction args arbitrary: now rnd)
  case Nil
  show ?case by (simp add: reset_def)
next
  case (Cons a args)
  obtain now' rnd' where a: "a = (now', rnd')" by (cases a)
  have step: "reset now' rnd' (reset now rnd s) = reset now' rnd' s"
    by (simp add: reset_def)
  have "resets (a # args) (reset now rnd s) = resets args (reset now' rnd' s)"
    by (simp add: a step)
  moreover have "(reset now' rnd' s)\<lparr>startTime := t, simulationColor := c\<rparr>
      = (reset now rnd s)\<lparr>startTime := t, simulationColor := c\<rparr>" for t c
    by (simp add: reset_def)
  ultimately show ?case using Cons.IH [of now' rnd'] by simp
qed

section \<open>Dragging the ball\<close>

text \<open>
  C10. Whenever the drag flag is set, \<open>handleMouseUp\<close> leaves the simulation running,
  whether or not it was running before (so also when it had been stopped before the drag
  began), and clears the flag; when the flag is not set, \<open>handleMouseUp\<close> changes nothing.
  \<open>handleMouseDown\<close> at a point on the ball stops the loop, whether or not it was running:
  afterwards the simulation is not running, the drag flag is set, and the frame request
  in \<open>animationId\<close> is not scheduled.
\<close>

theorem drag_release:
  "(isDragging s \<longrightarrow> isRunning (handleMouseUp now0 now1 s) \<and> \<not> isDragging (handleMouseUp now0 now1 s))
   \<and> (\<not> isDragging s \<longrightarrow> handleMouseUp now0 now1 s = s)
   \<and> (pointer_in_ball x y s \<longrightarrow>
        \<not> isRunning (handleMouseDown x y s) \<and> isDragging (handleMouseDown x y s) \<and>
        animationId s \<notin> set (rafPending (handleMouseDown x y s)))"
  by (simp add: handleMouseUp_def start_def isRunning_def animate_running handleMouseDown_in_ball stop_def Let_def)

theorem drag_release_witness:
  "isDragging (app_sim\<lparr>isDragging := True\<rparr>) \<and> \<not> running (app_sim\<lparr>isDragging := True\<rparr>)
   \<and> isRunning (handleMouseUp 0 0 (app_sim\<lparr>isDragging := True\<rparr>))
   \<and> \<not> isDragging app_sim \<and> handleMouseUp 0 0 app_sim = app_sim
   \<and> pointer_in_ball (Fin 540) (Fin (1920 / 2.7)) app_sim
   \<and> \<not> running app_sim
   \<and> \<not> isRunning (handleMouseDown (Fin 540) (Fin (1920 / 2.7)) app_sim)"
proof -
  have a: "isDragging (app_sim\<lparr>isDragging := True\<rparr>)" by simp
  have b: "\<not> isDragging app_sim" "\<not> running app_sim" by (simp_all add: app_sim_eq)
  show ?thesis
    using a b pointer_on_app_sim
      drag_release [of "app_sim\<lparr>isDragging := True\<rparr>" 0 0 "Fin 540" "Fin (1920 / 2.7)"]
      drag_release [of app_sim 0 0 "Fin 540" "Fin (1920 / 2.7)"]
    by simp
qed



lemma released_at_centre:
  "Fin 0 < snd (ballVelocity (handleMouseUp 0 0 (handleMouseMove (Fin 540) (Fin 960)
        (handleMouseDown (Fin 540) (Fin (1920 / 2.7)) app_sim))))"
proof -
  define t where "t = app_sim\<lparr> running := True, startTime := Fin 0 - elapsedTime app_sim * Fin 1000,
      ballCenter := (Fin 540, Fin 960), ballVelocity := (Fin 0, Fin 0) \<rparr>"
  have up: "handleMouseUp 0 0 (handleMouseMove (Fin 540) (Fin 960)
       (handleMouseDown (Fin 540) (Fin (1920 / 2.7)) app_sim)) = animate 0 t"
    unfolding handleMouseDown_in_ball [OF pointer_on_app_sim]
    by (simp add: stop_def handleMouseMove_def handleMouseUp_def start_def t_def Let_def)
       (simp add: app_sim_eq)
  have v: "ballVelocity (animate 0 t) = ballVelocity (update 0 t)"
    by (simp add: animate_def t_def Let_def)
  have "sqrt (4 / 10 * (9995 / 10 ^ 4) * (4 / 10 * (9995 / 10 ^ 4))) < (410 :: real)"
    by (rule real_less_lsqrt) (simp_all add: power2_eq_square)
  then have c: "\<not> collision_test (moved 0 t)"
    by (simp add: collision_test_def distance_def offset_def boundaryCenter_def moved_eq
          t_def app_sim_eq number_ops not_sum_squares_lt_zero)
  have "ballVelocity (moved 0 t) = (Fin 0, Fin 0.3998)"
    by (simp add: moved_eq t_def app_sim_eq number_ops)
  then show ?thesis
    unfolding up v update_no_collision [OF c] by (simp add: number_ops)
qed


section \<open>The tick\<close>

text \<open>
  C4. Every call of \<open>update\<close> runs the steps in this order: it appends the current centre
  to the motion trail (dropping the oldest entry when the trail then has more than 5),
  adds \<open>GRAVITY\<close> to the vertical velocity, multiplies both velocity components by the
  decay factor, adds the velocity to the centre, and then tests
  \<open>distance >= CIRCLE_RADIUS - ballRadius\<close> on the state so reached; the steps of the
  collision response run when the test holds and only then. The trail ends with the
  centre the ball had before the tick, and holds at most 5 entries if it did before.
\<close>

theorem update_in_order:
  "update now s =
     (let m = integrate (apply_decay (apply_gravity (record_trail (read_clock now s))))
      in if CIRCLE_RADIUS m - ballRadius m \<le> distance m
         then raise_event (reposition (mark (floor_speed (boost (grow (reflect m))))))
         else m)
   \<and> previousPositions (update now s) =
       (if 5 < length (previousPositions s @ [ballCenter s])
        then tl (previousPositions s @ [ballCenter s])
        else previousPositions s @ [ballCenter s])
   \<and> last (previousPositions (update now s)) = ballCenter s
   \<and> (length (previousPositions s) \<le> 5 \<longrightarrow> length (previousPositions (update now s)) \<le> 5)"
proof -
  have 1: "update now s =
     (let m = integrate (apply_decay (apply_gravity (record_trail (read_clock now s))))
      in if CIRCLE_RADIUS m - ballRadius m \<le> distance m
         then raise_event (reposition (mark (floor_speed (boost (grow (reflect m))))))
         else m)"
    by (simp add: update_steps update_by_steps_def moved_def respond_def collision_test_def Let_def)
  have p: "previousPositions (update now s) =
       (if 5 < length (previousPositions s @ [ballCenter s])
        then tl (previousPositions s @ [ballCenter s])
        else previousPositions s @ [ballCenter s])"
    by (simp add: update_steps update_by_steps_def respond_eq moved_eq)
  have 3: "last (previousPositions (update now s)) = ballCenter s"
    unfolding p by (cases "previousPositions s") (simp_all add: last_tl)
  have 4: "length (previousPositions s) \<le> 5 \<Longrightarrow> length (previousPositions (update now s)) \<le> 5"
    unfolding p by simp
  from 1 p 3 4 show ?thesis by blast
qed

theorem update_in_order_witness:
  "length (previousPositions app_sim) \<le> 5
   \<and> length (previousPositions (update 0 app_sim)) \<le> 5
   \<and> last (previousPositions (update 0 app_sim)) = ballCenter app_sim"
proof -
  have "length (previousPositions app_sim) \<le> 5" by (simp add: app_sim_eq)
  with update_in_order [of 0 app_sim] show ?thesis by blast
qed

lemma decay_slows:
  assumes "ballVelocity g = (Fin a, Fin b)" "VELOCITY_DECAY g = Fin d" "\<bar>d\<bar> \<le> 1"
  shows "speed (apply_decay g) \<le> speed g"
proof -
  have "speed (apply_decay g) = Fin (sqrt (a * d * (a * d) + b * d * (b * d)))"
    by (simp add: speed_def apply_decay_def assms number_ops)
  moreover have "\<bar>d\<bar> * sqrt (a * a + b * b) \<le> 1 * sqrt (a * a + b * b)"
    using assms(3) by (intro mult_right_mono) simp_all
  ultimately show ?thesis
    by (simp add: decayed_speed speed_def assms(1) number_ops)
qed

text \<open>
  C6. In a tick without collision the ball radius does not change, and the velocity the
  tick leaves is the velocity after the gravity step with each component multiplied by the
  decay factor. When that velocity is finite and the decay factor lies between -1 and 1,
  the speed after the decay step is at most the speed after the gravity step.
\<close>

theorem free_flight:
  assumes "\<not> collision_test (moved now s)"
  shows "ballRadius (update now s) = ballRadius s
       \<and> ballVelocity (apply_gravity (record_trail (read_clock now s))) =
           (fst (ballVelocity s), snd (ballVelocity s) + GRAVITY s)
       \<and> ballVelocity (update now s) =
           (fst (ballVelocity s) * VELOCITY_DECAY s,
            (snd (ballVelocity s) + GRAVITY s) * VELOCITY_DECAY s)
       \<and> ballVelocity (update now s) =
           ballVelocity (apply_decay (apply_gravity (record_trail (read_clock now s))))
       \<and> (is_finite (fst (ballVelocity s)) \<and> is_finite (snd (ballVelocity s) + GRAVITY s)
            \<and> Math_abs (VELOCITY_DECAY s) \<le> Fin 1 \<longrightarrow>
            speed (apply_decay (apply_gravity (record_trail (read_clock now s))))
              \<le> speed (apply_gravity (record_trail (read_clock now s))))"
proof -
  define g where "g = apply_gravity (record_trail (read_clock now s))"
  have u: "update now s = integrate (apply_decay g)"
    using update_no_collision [OF assms] by (simp add: moved_def g_def)
  have g: "ballVelocity g = (fst (ballVelocity s), snd (ballVelocity s) + GRAVITY s)"
    "VELOCITY_DECAY g = VELOCITY_DECAY s"
    by (simp_all add: g_def apply_gravity_def record_trail_def read_clock_def Let_def)
  have 1: "ballRadius (update now s) = ballRadius s"
    using update_no_collision [OF assms] by simp
  have 2: "ballVelocity (update now s) = ballVelocity (apply_decay g)"
    by (simp add: u integrate_def)
  have 3: "ballVelocity (update now s) =
           (fst (ballVelocity s) * VELOCITY_DECAY s,
            (snd (ballVelocity s) + GRAVITY s) * VELOCITY_DECAY s)"
    by (simp add: 2 apply_decay_def g)
  have 4: "speed (apply_decay g) \<le> speed g"
    if "is_finite (fst (ballVelocity s))" "is_finite (snd (ballVelocity s) + GRAVITY s)"
      "Math_abs (VELOCITY_DECAY s) \<le> Fin 1"
  proof -
    from that(1,2) obtain a b where ab: "ballVelocity g = (Fin a, Fin b)"
      unfolding is_finite_iff g by auto
    from that(3) obtain d where d: "VELOCITY_DECAY g = Fin d" "\<bar>d\<bar> \<le> 1"
      unfolding g by (cases "VELOCITY_DECAY s") (simp_all add: number_ops)
    from ab d show ?thesis by (rule decay_slows)
  qed
  from 1 2 3 4 g(1) show ?thesis unfolding g_def by blast
qed

theorem free_flight_witness:
  "\<not> collision_test (moved 0 app_sim)
   \<and> is_finite (fst (ballVelocity app_sim)) \<and> is_finite (snd (ballVelocity app_sim) + GRAVITY app_sim)
   \<and> Math_abs (VELOCITY_DECAY app_sim) \<le> Fin 1
   \<and> ballRadius (update 0 app_sim) = ballRadius app_sim
   \<and> speed (apply_decay (apply_gravity (record_trail (read_clock 0 app_sim))))
        \<le> speed (apply_gravity (record_trail (read_clock 0 app_sim)))"
proof -
  have f: "is_finite (fst (ballVelocity app_sim))" "is_finite (snd (ballVelocity app_sim) + GRAVITY app_sim)"
    "Math_abs (VELOCITY_DECAY app_sim) \<le> Fin 1"
    by (simp_all add: app_sim_eq number_ops)
  from free_flight [OF no_collision_app_sim] f no_collision_app_sim
  show ?thesis by blast
qed

text \<open>
  As the specification states it, with the speed multiplied by the decay factor itself,
  the property fails for a negative factor: after \<open>setVelocityDecay(-1)\<close> the first tick
  of the application's simulation has no collision, the speed after the decay step is the
  speed after the gravity step, and the decay factor times that speed is its negative.
\<close>

theorem free_flight_counterexample:
  "\<not> (\<not> collision_test (moved 0 (setVelocityDecay (Fin (- 1)) app_sim)) \<longrightarrow>
       speed (apply_decay (apply_gravity (record_trail (read_clock 0
                (setVelocityDecay (Fin (- 1)) app_sim))))) =
       VELOCITY_DECAY (setVelocityDecay (Fin (- 1)) app_sim)
         * speed (apply_gravity (record_trail (read_clock 0 (setVelocityDecay (Fin (- 1)) app_sim)))))"
proof -
  have "speed (apply_decay (apply_gravity (record_trail (read_clock 0
                (setVelocityDecay (Fin (- 1)) app_sim))))) \<noteq>
       VELOCITY_DECAY (setVelocityDecay (Fin (- 1)) app_sim)
         * speed (apply_gravity (record_trail (read_clock 0 (setVelocityDecay (Fin (- 1)) app_sim))))"
    by (simp add: speed_def apply_decay_def apply_gravity_def record_trail_def read_clock_def
          setVelocityDecay_def app_sim_eq number_ops Let_def)
  with no_collision_reversed show ?thesis by blast
qed

section \<open>The collision\<close>

text \<open>
  C9. If the ball radius is smaller than the boundary radius, then in every tick that
  takes the collision branch the distance from the ball's centre to the centre of the
  boundary is greater than zero, so the two divisions by \<open>distance\<close> that compute the
  normal do not divide by zero.
\<close>

theorem normal_defined:
  assumes "ballRadius s < CIRCLE_RADIUS s" and "collision_test (moved now s)"
  shows "Fin 0 < distance (moved now s) \<and> distance (moved now s) \<noteq> Fin 0
       \<and> update now s = respond (moved now s)"
proof -
  have "CIRCLE_RADIUS s - ballRadius s \<le> distance (moved now s)"
    using assms(2) by (simp add: collision_test_def)
  then have pos: "Fin 0 < distance (moved now s)"
    using assms(1) by (rule positive_gap [rotated])
  then have "distance (moved now s) \<noteq> Fin 0"
    by (auto simp add: number_ops)
  with pos update_collision [OF assms(2)] show ?thesis by simp
qed

theorem normal_defined_witness:
  "ballRadius bounce_sim < CIRCLE_RADIUS bounce_sim \<and> collision_test (moved 0 bounce_sim)
   \<and> Fin 0 < distance (moved 0 bounce_sim)"
proof -
  have r: "ballRadius bounce_sim < CIRCLE_RADIUS bounce_sim"
    by (simp add: bounce_sim_def app_sim_eq number_ops)
  from r collision_bounce_sim normal_defined [OF r collision_bounce_sim] show ?thesis by blast
qed

text \<open>
  The reflection law in exact arithmetic. For a finite velocity and a finite offset with
  a distance above zero, the normal \<open>n = (center - boundaryCenter) / distance\<close> is a unit
  vector and the velocity \<open>v'\<close> after the reflection step has \<open>v' \<cdot> n = - 0.95 * (v \<cdot> n)\<close>.
  This is a fact about real numbers: the program's doubles round every operation, so
  there the two sides agree up to rounding only, and once \<open>dx * dx + dy * dy\<close> overflows
  the normal is \<open>(0, 0)\<close> and nothing is reflected.
\<close>

lemma reflection_law_exact:
  assumes v: "ballVelocity m = (Fin vx, Fin vy)" and o: "offset m = (Fin ox, Fin oy)"
    and d: "Fin 0 < distance m"
  shows "\<exists>nx ny k. normal m = (Fin nx, Fin ny) \<and> nx * nx + ny * ny = 1
           \<and> dot (ballVelocity m) (normal m) = Fin k
           \<and> dot (ballVelocity (reflect m)) (normal m) = Fin (- 0.95 * k)"
proof -
  define q where "q = sqrt (ox * ox + oy * oy)"
  have dist: "distance m = Fin q"
    by (simp add: distance_def o q_def)
  have q: "q \<noteq> 0" using d by (simp add: dist number_ops)
  have n: "normal m = (Fin (ox / q), Fin (oy / q))"
    by (simp add: normal_def dist o number_ops q)
  have unit: "ox / q * (ox / q) + oy / q * (oy / q) = 1"
    unfolding q_def by (rule unit_normal) (use q in \<open>simp add: q_def\<close>)
  have k: "dot (ballVelocity m) (normal m) = Fin (vx * (ox / q) + vy * (oy / q))"
    by (simp add: dot_def v n number_ops)
  have "dot (ballVelocity (reflect m)) (normal m) =
      Fin ((vx - 2 * (vx * (ox / q) + vy * (oy / q)) * (ox / q)) * 0.95 * (ox / q)
         + (vy - 2 * (vx * (ox / q) + vy * (oy / q)) * (oy / q)) * 0.95 * (oy / q))"
    by (simp add: reflect_def Let_def dot_def v n number_ops)
  also have "\<dots> = Fin (- 0.95 * (vx * (ox / q) + vy * (oy / q)))"
    by (simp only: reflect_normal_component [OF unit])
  finally show ?thesis using n unit k by blast
qed

text \<open>In exact arithmetic, rescaling a positive speed below 1 gives the speed 1.\<close>

lemma floor_speed_exact:
  assumes "Fin 0 < speed t" and "speed t < Fin 1"
  shows "speed (floor_speed t) = Fin 1"
proof -
  from assms obtain c where c: "speed t = Fin c" "0 < c" "c < 1"
    by (cases "speed t") (simp_all add: number_ops)
  have "norm2 (fst (ballVelocity t), snd (ballVelocity t)) = Fin c"
    using c(1) by (simp add: speed_def)
  then obtain a b where ab: "fst (ballVelocity t) = Fin a" "snd (ballVelocity t) = Fin b"
    "c = sqrt (a * a + b * b)"
    by (rule norm2_finite)
  have "speed (floor_speed t) = Fin (sqrt (a * (1 / c) * (a * (1 / c)) + b * (1 / c) * (b * (1 / c))))"
    using assms(2) c(2) by (simp add: floor_speed_def c(1) ab(1,2) number_ops)
  also have "sqrt (a * (1 / c) * (a * (1 / c)) + b * (1 / c) * (b * (1 / c))) = 1"
    unfolding ab(3) by (rule rescaled_speed) (use c(2) ab(3) in simp)
  finally show ?thesis .
qed

lemma floor_speed_kept:
  assumes "Fin 1 \<le> speed t"
  shows "floor_speed t = t"
  using assms by (cases "speed t") (simp_all add: floor_speed_def number_ops)

text \<open>A faster ball at the same place: after the bounce its speed is above 1.\<close>

lemma moved_fast_bounce:
  "ballVelocity (moved 0 (bounce_sim\<lparr>ballCenter := (Fin 540, Fin 1457), ballVelocity := (Fin 0, Fin 3)\<rparr>)) = (Fin 0, Fin 3)"
  "offset (moved 0 (bounce_sim\<lparr>ballCenter := (Fin 540, Fin 1457), ballVelocity := (Fin 0, Fin 3)\<rparr>)) = (Fin 0, Fin 500)"
  "distance (moved 0 (bounce_sim\<lparr>ballCenter := (Fin 540, Fin 1457), ballVelocity := (Fin 0, Fin 3)\<rparr>)) = Fin 500"
  by (simp_all add: moved_eq distance_def offset_def boundaryCenter_def bounce_sim_def app_sim_eq number_ops sqrt_250000)

lemma collision_fast_bounce:
  "collision_test (moved 0 (bounce_sim\<lparr>ballCenter := (Fin 540, Fin 1457), ballVelocity := (Fin 0, Fin 3)\<rparr>))"
  by (simp add: collision_test_def moved_fast_bounce) (simp add: bounce_sim_def app_sim_eq number_ops)

lemma boosted_fast_bounce:
  "Fin 1 \<le> speed (boost (grow (reflect (moved 0
       (bounce_sim\<lparr>ballCenter := (Fin 540, Fin 1457), ballVelocity := (Fin 0, Fin 3)\<rparr>)))))"
proof -
  have "ballVelocity (boost (grow (reflect (moved 0
       (bounce_sim\<lparr>ballCenter := (Fin 540, Fin 1457), ballVelocity := (Fin 0, Fin 3)\<rparr>)))))
       = (Fin 0, Fin (- 2.907))"
    by (simp add: boost_def grow_def reflect_def Let_def normal_def dot_def moved_fast_bounce
          number_ops)
       (simp add: bounce_sim_def app_sim_eq number_ops)
  then show ?thesis by (simp add: speed_def number_ops)
qed




text \<open>
  The speed floor divides by the speed, and a speed of zero is not set apart. With the
  gravity set to 0, a ball that is dragged onto the boundary and released collides at
  rest in the tick that \<open>handleMouseUp\<close> runs: the scale is \<open>1 / 0\<close>, and the velocity
  becomes \<open>(NaN, NaN)\<close>.
\<close>

lemma sqrt_168100: "sqrt 168100 = 410"
  by (rule real_sqrt_unique) simp_all

lemma floor_at_rest:
  "ballVelocity (handleMouseUp 0 0
     (handleMouseMove (Fin 540) (Fin 1370)
       (handleMouseDown (Fin 540) (Fin (1920 / 2.7))
         (setGravity (Fin 0) app_sim)))) = (NaN, NaN)"
proof -
  define s0 where "s0 = setGravity (Fin 0) app_sim"
  have p: "pointer_in_ball (Fin 540) (Fin (1920 / 2.7)) s0"
    by (simp add: s0_def setGravity_def pointer_in_ball_def app_sim_eq number_ops)
  define t where "t = s0\<lparr> running := True, startTime := Fin 0 - elapsedTime s0 * Fin 1000,
      ballCenter := (Fin 540, Fin 1370), ballVelocity := (Fin 0, Fin 0) \<rparr>"
  have up: "handleMouseUp 0 0 (handleMouseMove (Fin 540) (Fin 1370)
       (handleMouseDown (Fin 540) (Fin (1920 / 2.7)) s0)) = animate 0 t"
    unfolding handleMouseDown_in_ball [OF p]
    by (simp add: stop_def handleMouseMove_def handleMouseUp_def start_def t_def Let_def)
       (simp add: s0_def setGravity_def app_sim_eq)
  have v: "ballVelocity (animate 0 t) = ballVelocity (update 0 t)"
    by (simp add: animate_def t_def Let_def)
  have m: "ballVelocity (moved 0 t) = (Fin 0, Fin 0)" "offset (moved 0 t) = (Fin 0, Fin 410)"
    "distance (moved 0 t) = Fin 410"
    by (simp_all add: moved_eq distance_def offset_def boundaryCenter_def t_def s0_def
          setGravity_def app_sim_eq number_ops sqrt_168100)
  have c: "collision_test (moved 0 t)"
    by (simp add: collision_test_def m) (simp add: t_def s0_def setGravity_def app_sim_eq number_ops)
  have f: "VELOCITY_INCREASE_FACTOR t = Fin 1.02"
    by (simp add: t_def s0_def setGravity_def app_sim_eq)
  have "ballVelocity (respond (moved 0 t)) = (NaN, NaN)"
    by (simp add: respond_eq normal_def dot_def m f Let_def number_ops signed_inf_def)
  then show ?thesis
    unfolding s0_def [symmetric] up v update_collision [OF c] .
qed

text \<open>
  In exact arithmetic, the repositioned centre lies at the distance
  \<open>\<bar>CIRCLE_RADIUS - ballRadius\<bar>\<close> from the centre of the boundary.
\<close>

lemma respond_distance:
  assumes "boundaryCenter m = (Fin bx, Fin by)" "CIRCLE_RADIUS m = Fin R"
    "ballRadius (respond m) = Fin r" "collision_angle m = Fin a"
  shows "distance (respond m) = Fin \<bar>R - r\<bar>"
proof -
  have "distance (respond m) =
      Fin (sqrt ((R - r) * cos a * ((R - r) * cos a) + (R - r) * sin a * ((R - r) * sin a)))"
    by (simp add: distance_def offset_def respond_center assms number_ops)
  then show ?thesis by (simp only: scaled_unit_length)
qed




end
